theory Spec2Isabelle
  imports Main
begin

section \<open>Data model of \<open>PostingDataTable\<close>\<close>

text \<open>
  \<open>PostingDataTable\<close> (\<open>src/posting/widgets/datatable.py\<close>) subclasses the
  \<open>DataTable\<close> widget of the Textual library. The methods of the subclass are
  embedded below from their source. The inherited state (columns, rows, cell data, cursor)
  and the inherited methods the subclass calls through \<open>super()\<close> or \<open>self\<close> are part
  of the library, not of the repository; they are modelled in the subsection on the base
  class, as far as the subclass observes them.

  A row or column key is a \<open>StringKey\<close>: built from a string, or from \<open>None\<close>, in
  which case it equals no other key. The second kind is numbered by a counter of the table.
\<close>

datatype key = Named string | Auto nat

text \<open>
  A cell is text (\<open>str | Text\<close>, opaque here) or a \<open>Checkbox\<close>. A \<open>Checkbox\<close>
  is a mutable object: the cell holds a reference to it, and the objects live in the field
  \<open>heap\<close> of the table, the checked flag of the object with address \<open>a\<close> being
  \<open>heap ! a\<close>. A missing cell (the \<open>None\<close> a row is padded with) is \<open>None\<close>.
\<close>

datatype cell = Plain string | CheckboxRef nat

datatype error =
  DuplicateKey | RowDoesNotExist | CellDoesNotExist | ValueError | AttributeError | SkipAction

text \<open>
  The two messages of the class, with their \<open>explicit_by_user\<close> flag and the sender
  set by \<open>set_sender\<close>, when one was given.
\<close>

datatype message = RowsAdded bool "string option" | RowsRemoved bool "string option"

text \<open>
  What a method does to its collaborators, in the order it does it: messages posted to the
  queue, calls to the screen's focus manager, and the inherited operations that change the
  row set, re-measure columns, repaint or scroll.
\<close>

datatype effect =
    Posted message
  | RowInserted key
  | RowDeleted key
  | RowsCleared bool
  | WidthsUpdated "(key \<times> key) set"
  | FocusNext
  | FocusPrevious
  | Refreshed
  | ScrolledDown
  | ScrolledUp

datatype cursor_kind = CursorCell | CursorRow | CursorColumn | CursorNone

record column =
  col_key :: key
  col_label :: string
  col_width :: "int option"

text \<open>
  A row: its entry in \<open>rows\<close> (key, height, label) together with its entry in
  \<open>_data\<close>, the dictionary from column key to cell value, kept in insertion order.
\<close>

record row =
  row_key :: key
  row_height :: "int option"
  row_label :: "string option"
  row_data :: "(key \<times> cell option) list"

record table =
  cursor_vertical_escape :: bool
  row_disable :: bool
  fixed_columns_bak :: "int option"
  fixed_columns :: int
  columns :: "column list"
  rows :: "row list"
  cursor_coordinate :: "int \<times> int"
  show_cursor :: bool
  cursor_type :: cursor_kind
  show_hover_cursor :: bool
  allow_vertical_scroll :: bool
  update_count :: nat
  heap :: "bool list"
  next_key :: nat
  effects :: "effect list"

definition row_count :: "table \<Rightarrow> nat" where
  "row_count s = length (rows s)"

text \<open>
  The table after \<open>__init__\<close>: the base class's defaults (no columns, no rows, cursor
  at the origin, a cell cursor that is shown, the fixed-column count given to the
  constructor), then the three assignments of the subclass. Whether the view can scroll
  vertically (\<open>allow_vertical_scroll\<close>) is decided by the layout; a new, empty table
  has nothing to scroll.
\<close>

definition init :: "int \<Rightarrow> table" where
  "init fc = \<lparr> cursor_vertical_escape = True, row_disable = False,
     fixed_columns_bak = None, fixed_columns = fc, columns = [], rows = [],
     cursor_coordinate = (0, 0), show_cursor = True, cursor_type = CursorCell,
     show_hover_cursor = False, allow_vertical_scroll = False,
     update_count = 0, heap = [], next_key = 0,
     effects = [] \<rparr>"

subsection \<open>The \<open>Checkbox\<close> class\<close>

text \<open>
  \<open>Checkbox(checked)\<close> allocates a new object; its address is the next free one.
\<close>

definition new_checkbox :: "bool \<Rightarrow> table \<Rightarrow> nat \<times> table" where
  "new_checkbox checked s = (length (heap s), s\<lparr>heap := heap s @ [checked]\<rparr>)"

text \<open>\<open>Checkbox.toggle\<close>: negates the flag of the object and returns the new flag.\<close>

definition toggle :: "nat \<Rightarrow> table \<Rightarrow> bool \<times> table" where
  "toggle a s = (\<not> heap s ! a, s\<lparr>heap := (heap s)[a := \<not> heap s ! a]\<rparr>)"

subsection \<open>The inherited \<open>DataTable\<close>\<close>

text \<open>
  The rows are kept in the order they were added: it is the order of \<open>_data\<close> and,
  since no method of the subclass sorts the table, the order of the row locations too.
  \<open>log\<close> appends to the record of effects; \<open>post_message\<close> puts a message on the
  queue, which is recorded there.
\<close>

definition log :: "effect \<Rightarrow> table \<Rightarrow> table" where
  "log e s = s\<lparr>effects := effects s @ [e]\<rparr>"

definition post_message :: "message \<Rightarrow> table \<Rightarrow> table" where
  "post_message m s = log (Posted m) s"

definition make_key :: "string option \<Rightarrow> table \<Rightarrow> key \<times> table" where
  "make_key k s = (case k of
       Some n \<Rightarrow> (Named n, s)
     | None \<Rightarrow> (Auto (next_key s), s\<lparr>next_key := Suc (next_key s)\<rparr>))"

text \<open>
  \<open>clamp\<close> of \<open>textual.geometry\<close>, which accepts its bounds in either order, and the
  validation every assignment to the reactive \<open>cursor_coordinate\<close> goes through.
\<close>

definition clamp :: "int \<Rightarrow> int \<Rightarrow> int \<Rightarrow> int" where
  "clamp v mn mx =
     (if mn > mx then (if v < mx then mx else if v > mn then mn else v)
      else (if v < mn then mn else if v > mx then mx else v))"

definition clamp_cursor_coordinate :: "table \<Rightarrow> int \<times> int \<Rightarrow> int \<times> int" where
  "clamp_cursor_coordinate s c =
     (clamp (fst c) 0 (int (row_count s) - 1), clamp (snd c) 0 (int (length (columns s)) - 1))"

definition set_cursor_coordinate :: "int \<times> int \<Rightarrow> table \<Rightarrow> table" where
  "set_cursor_coordinate c s = s\<lparr>cursor_coordinate := clamp_cursor_coordinate s c\<rparr>"

text \<open>\<open>zip_longest(ordered_columns, cells)\<close> for no more cells than columns.\<close>

definition zip_longest :: "key list \<Rightarrow> cell list \<Rightarrow> (key \<times> cell option) list" where
  "zip_longest ks cs = zip ks (map Some cs @ replicate (length ks - length cs) None)"

text \<open>
  Modelled from the spec: \<open>DataTable.add_column\<close> of the base class (Textual, not in
  the repository), which appends a column and fails if the key collides with an existing
  column key. As in the library, every existing row gets the default value in the new
  column.
\<close>

definition base_add_column ::
  "string \<Rightarrow> int option \<Rightarrow> string option \<Rightarrow> cell option \<Rightarrow> table \<Rightarrow> (error + key) \<times> table" where
  "base_add_column label width k dflt s =
     (case make_key k s of (ck, s1) \<Rightarrow>
        if ck \<in> set (map col_key (columns s1)) then (Inl DuplicateKey, s1)
        else (Inr ck,
              s1\<lparr>columns := columns s1 @ [\<lparr>col_key = ck, col_label = label, col_width = width\<rparr>],
                 rows := map (\<lambda>r. r\<lparr>row_data := row_data r @ [(ck, dflt)]\<rparr>) (rows s1)\<rparr>))"

text \<open>
  Modelled from the spec: \<open>DataTable.add_row\<close> of the base class (Textual, not in the
  repository), which appends a row and fails if the key collides with an existing row key.
  As in the library, the cells are stored under the column keys in order, a short row is
  padded with \<open>None\<close>, more cells than columns are refused, and the cursor coordinate
  is assigned to itself, which clamps it.
\<close>

definition base_add_row ::
  "cell list \<Rightarrow> int option \<Rightarrow> string option \<Rightarrow> string option \<Rightarrow> table \<Rightarrow> (error + key) \<times> table" where
  "base_add_row cells height k label s =
     (case make_key k s of (rk, s1) \<Rightarrow>
        if rk \<in> set (map row_key (rows s1)) then (Inl DuplicateKey, s1)
        else if length cells > length (columns s1) then (Inl ValueError, s1)
        else (Inr rk,
              set_cursor_coordinate (cursor_coordinate s1)
                (log (RowInserted rk)
                  (s1\<lparr>rows := rows s1 @
                        [\<lparr>row_key = rk, row_height = height, row_label = label,
                          row_data = zip_longest (map col_key (columns s1)) cells\<rparr>],
                      update_count := Suc (update_count s1)\<rparr>))))"

text \<open>
  Modelled from the spec: \<open>DataTable.remove_row\<close> of the base class (Textual, not in
  the repository), which removes the row with the given key, keeps the order of the
  others, and fails if no row has the key. As in the library, the cursor coordinate is
  then assigned to itself and the widget repainted.
\<close>

definition base_remove_row :: "key \<Rightarrow> table \<Rightarrow> (error + unit) \<times> table" where
  "base_remove_row rk s =
     (if rk \<notin> set (map row_key (rows s)) then (Inl RowDoesNotExist, s)
      else (Inr (),
            log Refreshed
              (set_cursor_coordinate (cursor_coordinate s)
                (log (RowDeleted rk)
                  (s\<lparr>rows := filter (\<lambda>r. row_key r \<noteq> rk) (rows s),
                     update_count := Suc (update_count s)\<rparr>)))))"

text \<open>
  Modelled from the spec: \<open>DataTable.clear\<close> of the base class (Textual, not in the
  repository), which removes all rows, and all columns too when asked. As in the library,
  the cursor is put back at the origin and the widget repainted.
\<close>

definition base_clear :: "bool \<Rightarrow> table \<Rightarrow> table" where
  "base_clear cols s =
     log Refreshed
       (set_cursor_coordinate (0, 0)
         (log (RowsCleared cols)
           (s\<lparr>rows := [], columns := (if cols then [] else columns s)\<rparr>)))"

text \<open>
  Modelled from the spec: the lookups \<open>coordinate_to_cell_key\<close> and \<open>get_cell\<close> of
  the base class (Textual, not in the repository), which fail with \<open>CellDoesNotExist\<close>
  when the coordinate is out of range or the keys name no cell.
\<close>

definition is_valid_coordinate :: "table \<Rightarrow> int \<times> int \<Rightarrow> bool" where
  "is_valid_coordinate s c \<longleftrightarrow>
     0 \<le> fst c \<and> fst c < int (row_count s) \<and> 0 \<le> snd c \<and> snd c < int (length (columns s))"

definition coordinate_to_cell_key :: "int \<times> int \<Rightarrow> table \<Rightarrow> error + (key \<times> key)" where
  "coordinate_to_cell_key c s =
     (if \<not> is_valid_coordinate s c then Inl CellDoesNotExist
      else Inr (row_key (rows s ! nat (fst c)), col_key (columns s ! nat (snd c))))"

definition get_cell :: "key \<Rightarrow> key \<Rightarrow> table \<Rightarrow> error + cell option" where
  "get_cell rk ck s =
     (case find (\<lambda>r. row_key r = rk) (rows s) of
        None \<Rightarrow> Inl CellDoesNotExist
      | Some r \<Rightarrow> (case map_of (row_data r) ck of
                    None \<Rightarrow> Inl CellDoesNotExist
                  | Some v \<Rightarrow> Inr v))"

text \<open>
  \<open>_update_column_widths\<close> of the base class re-measures the columns of the cells it is
  given; what it is given is recorded. \<open>_set_hover_cursor\<close>, \<open>refresh\<close> and the
  focus calls of the screen are recorded likewise.
\<close>

definition update_column_widths :: "(key \<times> key) set \<Rightarrow> table \<Rightarrow> table" where
  "update_column_widths cells s = log (WidthsUpdated cells) s"

definition set_hover_cursor :: "bool \<Rightarrow> table \<Rightarrow> table" where
  "set_hover_cursor active s = s\<lparr>show_hover_cursor := active\<rparr>"

definition refresh :: "table \<Rightarrow> table" where
  "refresh s = log Refreshed s"

definition focus_next :: "table \<Rightarrow> table" where
  "focus_next s = log FocusNext s"

definition focus_previous :: "table \<Rightarrow> table" where
  "focus_previous s = log FocusPrevious s"

text \<open>
  \<open>DataTable.action_cursor_down\<close> and \<open>action_cursor_up\<close> of the base class: one
  step of the cursor when it is shown and addresses rows; otherwise the scroll action of
  the widget, which scrolls the view when it can scroll vertically and raises
  \<open>SkipAction\<close> when it cannot.
\<close>

definition action_scroll_down :: "table \<Rightarrow> (error + unit) \<times> table" where
  "action_scroll_down s =
     (if \<not> allow_vertical_scroll s then (Inl SkipAction, s) else (Inr (), log ScrolledDown s))"

definition action_scroll_up :: "table \<Rightarrow> (error + unit) \<times> table" where
  "action_scroll_up s =
     (if \<not> allow_vertical_scroll s then (Inl SkipAction, s) else (Inr (), log ScrolledUp s))"

definition base_action_cursor_down :: "table \<Rightarrow> (error + unit) \<times> table" where
  "base_action_cursor_down s =
     (let s1 = set_hover_cursor False s in
      if show_cursor s1 \<and> (cursor_type s1 = CursorCell \<or> cursor_type s1 = CursorRow)
      then (Inr (),
            set_cursor_coordinate
              (fst (cursor_coordinate s1) + 1, snd (cursor_coordinate s1)) s1)
      else action_scroll_down s1)"

definition base_action_cursor_up :: "table \<Rightarrow> (error + unit) \<times> table" where
  "base_action_cursor_up s =
     (let s1 = set_hover_cursor False s in
      if show_cursor s1 \<and> (cursor_type s1 = CursorCell \<or> cursor_type s1 = CursorRow)
      then (Inr (),
            set_cursor_coordinate
              (fst (cursor_coordinate s1) - 1, snd (cursor_coordinate s1)) s1)
      else action_scroll_up s1)"

section \<open>The methods of \<open>PostingDataTable\<close>\<close>

text \<open>
  \<open>add_row\<close>: with \<open>row_disable\<close> set, \<open>Checkbox(True)\<close> is put in front of the
  cells; then the message is built and posted, and the base class adds the row. The
  callers' cells are text.
\<close>

definition add_row ::
  "string list \<Rightarrow> int option \<Rightarrow> string option \<Rightarrow> string option \<Rightarrow> bool \<Rightarrow> string option \<Rightarrow>
   table \<Rightarrow> (error + key) \<times> table" where
  "add_row cells height k label explicit_by_user sender s =
     (case (if row_disable s
            then (case new_checkbox True s of (a, s1) \<Rightarrow> (CheckboxRef a # map Plain cells, s1))
            else (map Plain cells, s)) of
        (cells', s1) \<Rightarrow>
          base_add_row cells' height k label
            (post_message (RowsAdded explicit_by_user sender) s1))"

definition add_column ::
  "string \<Rightarrow> int option \<Rightarrow> string option \<Rightarrow> string option \<Rightarrow> table \<Rightarrow> (error + key) \<times> table" where
  "add_column label width k dflt s =
     (if row_disable s \<and> length (columns s) = 0
      then (case base_add_column [] (Some 1) (Some ''checkbox'') None s of
              (Inl e, s1) \<Rightarrow> (Inl e, s1)
            | (Inr _, s1) \<Rightarrow> base_add_column label width k (map_option Plain dflt) s1)
      else base_add_column label width k (map_option Plain dflt) s)"

definition action_toggle_fixed_columns :: "table \<Rightarrow> table" where
  "action_toggle_fixed_columns s =
     (let s1 = (if fixed_columns_bak s = None
                then s\<lparr>fixed_columns_bak := Some (fixed_columns s)\<rparr> else s)
      in s1\<lparr>fixed_columns :=
              (if fixed_columns s1 = 0
               then (case fixed_columns_bak s1 of Some b \<Rightarrow> b | None \<Rightarrow> fixed_columns s1)
               else 0)\<rparr>)"

text \<open>
  \<open>_column_width_refresh\<close>: on a table with rows, the key of the first row of
  \<open>_data\<close> and the column keys of that row's dictionary make the cell keys handed to
  \<open>_update_column_widths\<close>.
\<close>

definition refresh_cells :: "row \<Rightarrow> (key \<times> key) set" where
  "refresh_cells r = (\<lambda>c. (row_key r, c)) ` set (map fst (row_data r))"

definition column_width_refresh :: "table \<Rightarrow> table" where
  "column_width_refresh s =
     (if row_count s > 0
      then (case rows s of r # _ \<Rightarrow> update_column_widths (refresh_cells r) s | [] \<Rightarrow> s)
      else s)"

definition remove_row :: "key \<Rightarrow> table \<Rightarrow> (error + unit) \<times> table" where
  "remove_row rk s =
     (case base_remove_row rk (post_message (RowsRemoved True None) s) of
        (Inl e, s1) \<Rightarrow> (Inl e, s1)
      | (Inr rv, s1) \<Rightarrow> (Inr rv, column_width_refresh s1))"

definition clear :: "bool \<Rightarrow> table \<Rightarrow> table" where
  "clear cols s =
     column_width_refresh (base_clear cols (post_message (RowsRemoved False None) s))"

text \<open>The loop of \<open>replace_all_rows\<close>; the first exception ends it.\<close>

fun add_rows :: "string list list \<Rightarrow> table \<Rightarrow> (error + unit) \<times> table" where
  "add_rows [] s = (Inr (), s)"
| "add_rows (r # rs) s =
     (case add_row r (Some 1) None None False None s of
        (Inl e, s1) \<Rightarrow> (Inl e, s1)
      | (Inr _, s1) \<Rightarrow> add_rows rs s1)"

definition replace_all_rows :: "string list list \<Rightarrow> table \<Rightarrow> (error + unit) \<times> table" where
  "replace_all_rows rws s =
     (case add_rows rws (clear False s) of
        (Inl e, s1) \<Rightarrow> (Inl e, s1)
      | (Inr _, s1) \<Rightarrow> (Inr (), column_width_refresh s1))"

text \<open>
  \<open>action_cursor_down\<close> and \<open>action_cursor_up\<close>: the escape to a sibling, the
  move of the cursor with wrap-around, or the inherited action, whose exception is not
  caught here.
\<close>

definition action_cursor_down :: "table \<Rightarrow> (error + unit) \<times> table" where
  "action_cursor_down s =
     (let s1 = set_hover_cursor False s in
      if fst (cursor_coordinate s1) = int (row_count s1) - 1 \<and> cursor_vertical_escape s1
      then (Inr (), focus_next s1)
      else if show_cursor s1 \<and> (cursor_type s1 = CursorCell \<or> cursor_type s1 = CursorRow)
      then (case cursor_coordinate s1 of (r, c) \<Rightarrow>
              if r = int (row_count s1) - 1
              then (Inr (), set_cursor_coordinate (0, c) s1)
              else (Inr (), set_cursor_coordinate (r + 1, c) s1))
      else base_action_cursor_down s1)"

definition action_cursor_up :: "table \<Rightarrow> (error + unit) \<times> table" where
  "action_cursor_up s =
     (let s1 = set_hover_cursor False s in
      if fst (cursor_coordinate s1) = 0 \<and> cursor_vertical_escape s1
      then (Inr (), focus_previous s1)
      else if show_cursor s1 \<and> (cursor_type s1 = CursorCell \<or> cursor_type s1 = CursorRow)
      then (case cursor_coordinate s1 of (r, c) \<Rightarrow>
              if r = 0
              then (Inr (), set_cursor_coordinate (int (row_count s1) - 1, c) s1)
              else (Inr (), set_cursor_coordinate (r - 1, c) s1))
      else base_action_cursor_up s1)"

text \<open>
  \<open>action_remove_row\<close> and \<open>action_toggle_row\<close>: the body of the \<open>try\<close>, and
  the handler that absorbs \<open>CellDoesNotExist\<close> and lets every other exception through.
\<close>

definition action_remove_row :: "table \<Rightarrow> (error + unit) \<times> table" where
  "action_remove_row s =
     (case (case coordinate_to_cell_key (cursor_coordinate s) s of
              Inl e \<Rightarrow> (Inl e, s)
            | Inr (cursor_row_key, _) \<Rightarrow> remove_row cursor_row_key s) of
        (Inl CellDoesNotExist, s1) \<Rightarrow> (Inr (), s1)
      | res \<Rightarrow> res)"

definition action_toggle_row :: "table \<Rightarrow> (error + unit) \<times> table" where
  "action_toggle_row s =
     (case (case coordinate_to_cell_key (cursor_coordinate s) s of
              Inl e \<Rightarrow> (Inl e, s)
            | Inr (cursor_row_key, _) \<Rightarrow>
                (case get_cell cursor_row_key (Named ''checkbox'') s of
                   Inl e \<Rightarrow> (Inl e, s)
                 | Inr (Some (CheckboxRef a)) \<Rightarrow>
                     (case toggle a s of (_, s1) \<Rightarrow>
                        (Inr (), refresh (s1\<lparr>update_count := Suc (update_count s1)\<rparr>)))
                 | Inr _ \<Rightarrow> (Inl AttributeError, s))) of
        (Inl CellDoesNotExist, s1) \<Rightarrow> (Inr (), s1)
      | res \<Rightarrow> res)"

section \<open>Notions used by the properties\<close>

text \<open>What a method added to the record of effects, and the parts of it that matter.\<close>

definition new_effects :: "table \<Rightarrow> table \<Rightarrow> effect list" where
  "new_effects s s' = drop (length (effects s)) (effects s')"

definition focus_calls :: "effect list \<Rightarrow> effect list" where
  "focus_calls es = filter (\<lambda>e. e = FocusNext \<or> e = FocusPrevious) es"

fun width_requests :: "effect list \<Rightarrow> (key \<times> key) set list" where
  "width_requests [] = []"
| "width_requests (WidthsUpdated c # es) = c # width_requests es"
| "width_requests (_ # es) = width_requests es"

text \<open>
  The remembered fixed-column count agrees with the current one: nothing is remembered
  yet, or no column is fixed now, or the count is the remembered one.
\<close>

definition toggle_consistent :: "table \<Rightarrow> bool" where
  "toggle_consistent s \<longleftrightarrow>
     fixed_columns_bak s = None \<or> fixed_columns s = 0 \<or>
     fixed_columns_bak s = Some (fixed_columns s)"

text \<open>
  The addresses of the \<open>Checkbox\<close> objects held by a row, and by the whole table. In
  an \<open>unshared\<close> table no object is held twice and every address is allocated.
\<close>

fun cell_refs :: "(key \<times> cell option) list \<Rightarrow> nat list" where
  "cell_refs [] = []"
| "cell_refs ((_, Some (CheckboxRef a)) # cs) = a # cell_refs cs"
| "cell_refs (_ # cs) = cell_refs cs"

definition checkbox_refs :: "table \<Rightarrow> nat list" where
  "checkbox_refs s = concat (map (\<lambda>r. cell_refs (row_data r)) (rows s))"

definition unshared :: "table \<Rightarrow> bool" where
  "unshared s \<longleftrightarrow>
     distinct (checkbox_refs s) \<and> (\<forall>a \<in> set (checkbox_refs s). a < length (heap s))"

text \<open>
  The column \<open>add_column\<close> inserts by itself, a run of \<open>add_column\<close> calls (a call
  that raises leaves the table as it was at the raise), and what it means for a column list
  to hold that column once, in front.
\<close>

definition checkbox_column :: column where
  "checkbox_column = \<lparr>col_key = Named ''checkbox'', col_label = [], col_width = Some 1\<rparr>"

fun add_columns ::
  "(string \<times> int option \<times> string option \<times> string option) list \<Rightarrow> table \<Rightarrow> table" where
  "add_columns [] s = s"
| "add_columns ((label, width, k, dflt) # cs) s =
     add_columns cs (snd (add_column label width k dflt s))"

definition one_checkbox :: "column list \<Rightarrow> bool" where
  "one_checkbox cs \<longleftrightarrow>
     cs \<noteq> [] \<and> hd cs = checkbox_column \<and>
     filter (\<lambda>c. col_key c = Named ''checkbox'') cs = [checkbox_column]"

subsection \<open>Example tables\<close>

text \<open>
  A table with row selection and two columns of its own; the same with two and with three
  rows; a table without row selection holding one row; a table whose fixed-column count
  the host changed after the toggle had remembered another; and an empty table on which
  the cursor was moved up while vertical escape was off, after which it was switched on.
\<close>

definition selection_grid :: table where
  "selection_grid =
     snd (add_column ''B'' None (Some ''b'') None
       (snd (add_column ''A'' None (Some ''a'') None ((init 0)\<lparr>row_disable := True\<rparr>))))"

definition two_rows :: table where
  "two_rows =
     snd (add_row [''c'', ''d''] (Some 1) (Some ''r2'') None True None
       (snd (add_row [''a'', ''b''] (Some 1) (Some ''r1'') None True None selection_grid)))"

definition three_rows :: table where
  "three_rows = snd (add_row [''e'', ''f''] (Some 1) (Some ''r3'') None True None two_rows)"

definition plain_grid :: table where
  "plain_grid =
     snd (add_row [''a''] (Some 1) (Some ''r1'') None True None
       (snd (add_column ''A'' None (Some ''a'') None (init 0))))"

definition retargeted :: table where
  "retargeted =
     (action_toggle_fixed_columns (action_toggle_fixed_columns (init 2)))\<lparr>fixed_columns := 3\<rparr>"

definition wrapped_empty :: table where
  "wrapped_empty =
     (snd (action_cursor_up ((init 0)\<lparr>cursor_vertical_escape := False\<rparr>)))
       \<lparr>cursor_vertical_escape := True\<rparr>"

section \<open>Evaluation of the example tables\<close>

lemmas eval_defs = init_def add_column_def base_add_column_def make_key_def add_row_def
  new_checkbox_def post_message_def log_def base_add_row_def set_cursor_coordinate_def
  clamp_cursor_coordinate_def clamp_def row_count_def zip_longest_def

lemma selection_grid_eq: "selection_grid =
  \<lparr> cursor_vertical_escape = True, row_disable = True,
     fixed_columns_bak = None, fixed_columns = 0,
     columns = [\<lparr>col_key = Named ''checkbox'', col_label = [], col_width = Some 1\<rparr>,
                \<lparr>col_key = Named ''a'', col_label = ''A'', col_width = None\<rparr>,
                \<lparr>col_key = Named ''b'', col_label = ''B'', col_width = None\<rparr>], rows = [],
     cursor_coordinate = (0, 0), show_cursor = True, cursor_type = CursorCell,
     show_hover_cursor = False, allow_vertical_scroll = False,
     update_count = 0, heap = [], next_key = 0,
     effects = [] \<rparr>"
  by (simp add: selection_grid_def eval_defs)

lemma two_rows_eq: "two_rows =
  \<lparr> cursor_vertical_escape = True, row_disable = True,
     fixed_columns_bak = None, fixed_columns = 0,
     columns = [\<lparr>col_key = Named ''checkbox'', col_label = [], col_width = Some 1\<rparr>,
                \<lparr>col_key = Named ''a'', col_label = ''A'', col_width = None\<rparr>,
                \<lparr>col_key = Named ''b'', col_label = ''B'', col_width = None\<rparr>],
     rows = [\<lparr>row_key = Named ''r1'', row_height = Some 1, row_label = None,
              row_data = [(Named ''checkbox'', Some (CheckboxRef 0)),
                          (Named ''a'', Some (Plain ''a'')), (Named ''b'', Some (Plain ''b''))]\<rparr>,
             \<lparr>row_key = Named ''r2'', row_height = Some 1, row_label = None,
              row_data = [(Named ''checkbox'', Some (CheckboxRef 1)),
                          (Named ''a'', Some (Plain ''c'')), (Named ''b'', Some (Plain ''d''))]\<rparr>],
     cursor_coordinate = (0, 0), show_cursor = True, cursor_type = CursorCell,
     show_hover_cursor = False, allow_vertical_scroll = False,
     update_count = 2, heap = [True, True], next_key = 0,
     effects = [Posted (RowsAdded True None), RowInserted (Named ''r1''),
                Posted (RowsAdded True None), RowInserted (Named ''r2'')] \<rparr>"
  by (simp add: two_rows_def selection_grid_eq eval_defs)

lemma three_rows_eq: "three_rows =
  \<lparr> cursor_vertical_escape = True, row_disable = True,
     fixed_columns_bak = None, fixed_columns = 0,
     columns = [\<lparr>col_key = Named ''checkbox'', col_label = [], col_width = Some 1\<rparr>,
                \<lparr>col_key = Named ''a'', col_label = ''A'', col_width = None\<rparr>,
                \<lparr>col_key = Named ''b'', col_label = ''B'', col_width = None\<rparr>],
     rows = [\<lparr>row_key = Named ''r1'', row_height = Some 1, row_label = None,
              row_data = [(Named ''checkbox'', Some (CheckboxRef 0)),
                          (Named ''a'', Some (Plain ''a'')), (Named ''b'', Some (Plain ''b''))]\<rparr>,
             \<lparr>row_key = Named ''r2'', row_height = Some 1, row_label = None,
              row_data = [(Named ''checkbox'', Some (CheckboxRef 1)),
                          (Named ''a'', Some (Plain ''c'')), (Named ''b'', Some (Plain ''d''))]\<rparr>,
             \<lparr>row_key = Named ''r3'', row_height = Some 1, row_label = None,
              row_data = [(Named ''checkbox'', Some (CheckboxRef 2)),
                          (Named ''a'', Some (Plain ''e'')), (Named ''b'', Some (Plain ''f''))]\<rparr>],
     cursor_coordinate = (0, 0), show_cursor = True, cursor_type = CursorCell,
     show_hover_cursor = False, allow_vertical_scroll = False,
     update_count = 3, heap = [True, True, True], next_key = 0,
     effects = [Posted (RowsAdded True None), RowInserted (Named ''r1''),
                Posted (RowsAdded True None), RowInserted (Named ''r2''),
                Posted (RowsAdded True None), RowInserted (Named ''r3'')] \<rparr>"
  by (simp add: three_rows_def two_rows_eq eval_defs)

lemma plain_grid_eq: "plain_grid =
  \<lparr> cursor_vertical_escape = True, row_disable = False,
     fixed_columns_bak = None, fixed_columns = 0,
     columns = [\<lparr>col_key = Named ''a'', col_label = ''A'', col_width = None\<rparr>],
     rows = [\<lparr>row_key = Named ''r1'', row_height = Some 1, row_label = None,
              row_data = [(Named ''a'', Some (Plain ''a''))]\<rparr>],
     cursor_coordinate = (0, 0), show_cursor = True, cursor_type = CursorCell,
     show_hover_cursor = False, allow_vertical_scroll = False,
     update_count = 1, heap = [], next_key = 0,
     effects = [Posted (RowsAdded True None), RowInserted (Named ''r1'')] \<rparr>"
  by (simp add: plain_grid_def eval_defs)

lemma retargeted_eq: "retargeted = (init 3)\<lparr>fixed_columns_bak := Some 2\<rparr>"
  by (simp add: retargeted_def action_toggle_fixed_columns_def init_def)

section \<open>Fixed columns\<close>

lemma toggle_consistent_init: "toggle_consistent (init fc)"
  by (simp add: toggle_consistent_def init_def)

lemma toggle_consistent_step:
  "toggle_consistent s \<Longrightarrow> toggle_consistent (action_toggle_fixed_columns s)"
  by (auto simp: toggle_consistent_def action_toggle_fixed_columns_def Let_def
      split: option.splits)

text \<open>Every table reached from a new one by toggling alone is consistent.\<close>

lemma toggle_consistent_reached:
  "toggle_consistent ((action_toggle_fixed_columns ^^ n) (init fc))"
  by (induction n) (simp_all add: toggle_consistent_init toggle_consistent_step)

text \<open>What two invocations do to the count, in every table.\<close>

lemma toggle_fixed_columns_twice:
  "fixed_columns (action_toggle_fixed_columns (action_toggle_fixed_columns s)) =
     (if fixed_columns s = 0 then 0
      else case fixed_columns_bak s of None \<Rightarrow> fixed_columns s | Some b \<Rightarrow> b)"
  by (auto simp: action_toggle_fixed_columns_def Let_def split: option.splits)

text \<open>
  C3, as stated: two invocations of the toggle bring the fixed-column count back to where
  it started, whatever the count and also when the backup was remembered by an earlier
  invocation. This fails in the table \<open>retargeted\<close>: the toggle remembered 2, the host
  then set the count to 3, and two invocations end at 2.
\<close>

theorem toggle_fixed_columns_pair_counterexample:
  "fixed_columns_bak retargeted = Some 2 \<and> fixed_columns retargeted = 3 \<and>
   fixed_columns (action_toggle_fixed_columns (action_toggle_fixed_columns retargeted)) = 2 \<and>
   fixed_columns (action_toggle_fixed_columns (action_toggle_fixed_columns retargeted))
     \<noteq> fixed_columns retargeted"
  by (simp add: retargeted_eq action_toggle_fixed_columns_def init_def)

text \<open>
  C3, amended: when nothing is remembered yet, or the count is 0, or the count is the
  remembered one, two invocations of the toggle bring the fixed-column count back to where
  it started.
\<close>

theorem toggle_fixed_columns_pair:
  assumes "toggle_consistent s"
  shows "fixed_columns (action_toggle_fixed_columns (action_toggle_fixed_columns s))
           = fixed_columns s"
  using assms
  by (auto simp: toggle_consistent_def action_toggle_fixed_columns_def Let_def
      split: option.splits)

theorem toggle_fixed_columns_pair_witness:
  "toggle_consistent (action_toggle_fixed_columns (init 2)) \<and>
   fixed_columns_bak (action_toggle_fixed_columns (init 2)) = Some 2 \<and>
   fixed_columns (action_toggle_fixed_columns (action_toggle_fixed_columns
       (action_toggle_fixed_columns (init 2))))
     = fixed_columns (action_toggle_fixed_columns (init 2))"
proof -
  have c: "toggle_consistent (action_toggle_fixed_columns (init 2))"
    by (simp add: toggle_consistent_def action_toggle_fixed_columns_def init_def)
  have b: "fixed_columns_bak (action_toggle_fixed_columns (init 2)) = Some 2"
    by (simp add: action_toggle_fixed_columns_def init_def)
  show ?thesis
    using c b toggle_fixed_columns_pair [OF c] by simp
qed

section \<open>Cursor movement\<close>

lemma clamp_within: "mn \<le> v \<Longrightarrow> v \<le> mx \<Longrightarrow> clamp v mn mx = v"
  by (simp add: clamp_def)

text \<open>An empty table produced by \<open>clear\<close> has its cursor at the origin.\<close>

lemma clear_cursor_origin:
  "rows (clear cols s) = [] \<and> cursor_coordinate (clear cols s) = (0, 0)"
  by (simp add: clear_def base_clear_def post_message_def log_def column_width_refresh_def
      set_cursor_coordinate_def clamp_cursor_coordinate_def clamp_def row_count_def)

text \<open>
  C4: in a table with at least one row, the cursor on the last row and vertical escape
  enabled, \<open>action_cursor_down\<close> leaves the cursor coordinate as it is and makes one
  call to the host, \<open>focus_next\<close>, and nothing else.
\<close>

theorem cursor_down_escape_last_row:
  assumes "row_count s > 0"
      and "fst (cursor_coordinate s) = int (row_count s) - 1"
      and "cursor_vertical_escape s"
  shows "fst (action_cursor_down s) = Inr () \<and>
         cursor_coordinate (snd (action_cursor_down s)) = cursor_coordinate s \<and>
         effects (snd (action_cursor_down s)) = effects s @ [FocusNext] \<and>
         focus_calls (new_effects s (snd (action_cursor_down s))) = [FocusNext]"
  using assms
  by (simp add: action_cursor_down_def Let_def set_hover_cursor_def focus_next_def log_def
      new_effects_def focus_calls_def row_count_def)

theorem cursor_down_escape_last_row_witness:
  "row_count (three_rows\<lparr>cursor_coordinate := (2, 0)\<rparr>) > 0 \<and>
   fst (cursor_coordinate (three_rows\<lparr>cursor_coordinate := (2, 0)\<rparr>))
     = int (row_count (three_rows\<lparr>cursor_coordinate := (2, 0)\<rparr>)) - 1 \<and>
   cursor_vertical_escape (three_rows\<lparr>cursor_coordinate := (2, 0)\<rparr>) \<and>
   fst (action_cursor_down (three_rows\<lparr>cursor_coordinate := (2, 0)\<rparr>)) = Inr () \<and>
   cursor_coordinate (snd (action_cursor_down (three_rows\<lparr>cursor_coordinate := (2, 0)\<rparr>)))
     = (2, 0) \<and>
   focus_calls (new_effects (three_rows\<lparr>cursor_coordinate := (2, 0)\<rparr>)
     (snd (action_cursor_down (three_rows\<lparr>cursor_coordinate := (2, 0)\<rparr>)))) = [FocusNext]"
proof -
  let ?s = "three_rows\<lparr>cursor_coordinate := (2, 0)\<rparr>"
  have h1: "row_count ?s > 0" by (simp add: three_rows_eq row_count_def)
  have h2: "fst (cursor_coordinate ?s) = int (row_count ?s) - 1"
    by (simp add: three_rows_eq row_count_def)
  have h3: "cursor_vertical_escape ?s" by (simp add: three_rows_eq)
  show ?thesis
    using h1 h2 h3 cursor_down_escape_last_row [OF h1 h2 h3] by simp
qed

text \<open>
  C9: with vertical escape disabled, the cursor shown and a cell or row cursor, on a cursor
  that is on a cell of the table, \<open>action_cursor_down\<close> moves the cursor from the last
  row to row 0 of the same column, and from any other row one row down in the same column.
  It makes no call to the host.
\<close>

theorem cursor_down_wrap_or_advance:
  assumes "\<not> cursor_vertical_escape s"
      and "show_cursor s"
      and "cursor_type s = CursorCell \<or> cursor_type s = CursorRow"
      and "is_valid_coordinate s (cursor_coordinate s)"
  shows "fst (action_cursor_down s) = Inr () \<and>
         cursor_coordinate (snd (action_cursor_down s)) =
           (if fst (cursor_coordinate s) = int (row_count s) - 1
            then (0, snd (cursor_coordinate s))
            else (fst (cursor_coordinate s) + 1, snd (cursor_coordinate s))) \<and>
         effects (snd (action_cursor_down s)) = effects s"
  using assms
  by (cases "cursor_coordinate s")
     (auto simp: action_cursor_down_def Let_def set_hover_cursor_def set_cursor_coordinate_def
        clamp_cursor_coordinate_def is_valid_coordinate_def row_count_def clamp_within)

theorem cursor_down_wrap_or_advance_witness:
  "cursor_coordinate (snd (action_cursor_down
      (three_rows\<lparr>cursor_vertical_escape := False, cursor_coordinate := (2, 1)\<rparr>))) = (0, 1) \<and>
   cursor_coordinate (snd (action_cursor_down
      (three_rows\<lparr>cursor_vertical_escape := False, cursor_coordinate := (0, 1)\<rparr>))) = (1, 1)"
proof -
  let ?s = "three_rows\<lparr>cursor_vertical_escape := False, cursor_coordinate := (2, 1)\<rparr>"
  let ?t = "three_rows\<lparr>cursor_vertical_escape := False, cursor_coordinate := (0, 1)\<rparr>"
  have s: "\<not> cursor_vertical_escape ?s" "show_cursor ?s"
      "cursor_type ?s = CursorCell \<or> cursor_type ?s = CursorRow"
      "is_valid_coordinate ?s (cursor_coordinate ?s)"
    by (simp_all add: three_rows_eq is_valid_coordinate_def row_count_def)
  have t: "\<not> cursor_vertical_escape ?t" "show_cursor ?t"
      "cursor_type ?t = CursorCell \<or> cursor_type ?t = CursorRow"
      "is_valid_coordinate ?t (cursor_coordinate ?t)"
    by (simp_all add: three_rows_eq is_valid_coordinate_def row_count_def)
  have rc: "row_count ?s = 3" "row_count ?t = 3"
    by (simp_all add: three_rows_eq row_count_def)
  show ?thesis
    using cursor_down_wrap_or_advance [OF s] cursor_down_wrap_or_advance [OF t] rc
    by simp
qed

lemma wrapped_empty_eq:
  "wrapped_empty = (init 0)\<lparr>cursor_coordinate := (-1, 0)\<rparr>"
  by (simp add: wrapped_empty_def action_cursor_up_def Let_def set_hover_cursor_def
      set_cursor_coordinate_def clamp_cursor_coordinate_def clamp_def row_count_def init_def)

text \<open>
  Removing the only row of a table whose cursor is on row 0 leaves the cursor on row 0.
\<close>

lemma remove_only_row_cursor:
  assumes "rows s = [r]" and "row_key r = rk" and "fst (cursor_coordinate s) = 0"
  shows "rows (snd (remove_row rk s)) = [] \<and> fst (cursor_coordinate (snd (remove_row rk s))) = 0"
  using assms
  by (simp add: remove_row_def base_remove_row_def post_message_def log_def
      column_width_refresh_def set_cursor_coordinate_def clamp_cursor_coordinate_def
      clamp_def row_count_def)

text \<open>
  C10, as stated: on every empty table with vertical escape enabled,
  \<open>action_cursor_up\<close> transfers focus to the previous sibling and
  \<open>action_cursor_down\<close> never transfers focus, the cursor row being 0. The cursor row
  of an empty table need not be 0: on the table \<open>wrapped_empty\<close> the wrap-around of
  \<open>action_cursor_up\<close> has left it at -1, and there \<open>action_cursor_down\<close> calls
  \<open>focus_next\<close> and \<open>action_cursor_up\<close> makes no focus call.
\<close>

theorem empty_grid_escape_asymmetry_counterexample:
  "row_count wrapped_empty = 0 \<and> cursor_vertical_escape wrapped_empty \<and>
   cursor_coordinate wrapped_empty = (-1, 0) \<and>
   focus_calls (new_effects wrapped_empty (snd (action_cursor_down wrapped_empty)))
     = [FocusNext] \<and>
   focus_calls (new_effects wrapped_empty (snd (action_cursor_up wrapped_empty))) = []"
  by (simp add: wrapped_empty_eq action_cursor_down_def action_cursor_up_def Let_def
      set_hover_cursor_def set_cursor_coordinate_def clamp_cursor_coordinate_def clamp_def
      focus_next_def log_def new_effects_def focus_calls_def row_count_def init_def)

text \<open>
  C10, amended: on an empty table with vertical escape enabled and the cursor on row 0,
  \<open>action_cursor_up\<close> returns normally after one focus call, to the previous sibling,
  and \<open>action_cursor_down\<close> makes no focus call: its test compares row 0 with the row
  count minus one, which is -1. \<open>action_cursor_down\<close> then moves a shown cell or row
  cursor (nowhere, on an empty table) or falls to the inherited scroll action, which
  raises \<open>SkipAction\<close> when the view cannot scroll.
\<close>

theorem empty_grid_escape_asymmetry:
  assumes "row_count s = 0"
      and "cursor_vertical_escape s"
      and "fst (cursor_coordinate s) = 0"
  shows "fst (action_cursor_up s) = Inr () \<and>
         effects (snd (action_cursor_up s)) = effects s @ [FocusPrevious] \<and>
         focus_calls (new_effects s (snd (action_cursor_up s))) = [FocusPrevious] \<and>
         fst (action_cursor_down s) =
           (if (show_cursor s \<and> (cursor_type s = CursorCell \<or> cursor_type s = CursorRow))
               \<or> allow_vertical_scroll s
            then Inr () else Inl SkipAction) \<and>
         effects (snd (action_cursor_down s)) =
           effects s @
             (if show_cursor s \<and> (cursor_type s = CursorCell \<or> cursor_type s = CursorRow)
              then [] else if allow_vertical_scroll s then [ScrolledDown] else []) \<and>
         focus_calls (new_effects s (snd (action_cursor_down s))) = []"
  using assms
  by (cases "cursor_coordinate s")
     (auto simp: action_cursor_down_def action_cursor_up_def Let_def set_hover_cursor_def
        set_cursor_coordinate_def focus_previous_def base_action_cursor_down_def
        action_scroll_down_def log_def new_effects_def focus_calls_def row_count_def)

theorem empty_grid_escape_asymmetry_witness:
  "row_count (init 0) = 0 \<and> cursor_vertical_escape (init 0) \<and>
   fst (cursor_coordinate (init 0)) = 0 \<and>
   fst (action_cursor_up (init 0)) = Inr () \<and>
   effects (snd (action_cursor_up (init 0))) = [FocusPrevious] \<and>
   fst (action_cursor_down (init 0)) = Inr () \<and>
   effects (snd (action_cursor_down (init 0))) = [] \<and>
   fst (action_cursor_down ((init 0)\<lparr>cursor_type := CursorColumn\<rparr>)) = Inl SkipAction \<and>
   focus_calls (new_effects ((init 0)\<lparr>cursor_type := CursorColumn\<rparr>)
     (snd (action_cursor_down ((init 0)\<lparr>cursor_type := CursorColumn\<rparr>)))) = []"
proof -
  let ?c = "(init 0)\<lparr>cursor_type := CursorColumn\<rparr>"
  have h: "row_count (init 0) = 0" "cursor_vertical_escape (init 0)"
      "fst (cursor_coordinate (init 0)) = 0"
    by (simp_all add: init_def row_count_def)
  have hc: "row_count ?c = 0" "cursor_vertical_escape ?c" "fst (cursor_coordinate ?c) = 0"
    by (simp_all add: init_def row_count_def)
  have e: "effects (init 0) = []" "show_cursor (init 0)" "cursor_type (init 0) = CursorCell"
      "cursor_type ?c = CursorColumn" "\<not> allow_vertical_scroll ?c"
    by (simp_all add: init_def)
  show ?thesis
    using h e empty_grid_escape_asymmetry [OF h] empty_grid_escape_asymmetry [OF hc]
    by simp
qed

section \<open>Lookups by the cursor\<close>

lemma coordinate_to_cell_key_error:
  "coordinate_to_cell_key c s = Inl e \<Longrightarrow> e = CellDoesNotExist \<and> \<not> is_valid_coordinate s c"
  by (auto simp: coordinate_to_cell_key_def split: if_splits)

lemma get_cell_error: "get_cell rk ck s = Inl e \<Longrightarrow> e = CellDoesNotExist"
  by (auto simp: get_cell_def split: option.splits)

lemma empty_grid_lookup:
  "row_count s = 0 \<Longrightarrow> coordinate_to_cell_key c s = Inl CellDoesNotExist"
  by (simp add: coordinate_to_cell_key_def is_valid_coordinate_def)

text \<open>
  C7: when the lookup of the cell under the cursor fails, \<open>action_remove_row\<close> and
  \<open>action_toggle_row\<close> return normally and leave the table exactly as it was; so does
  \<open>action_toggle_row\<close> when the cursor is on a cell and the lookup of the row's
  checkbox cell fails.
\<close>

theorem cursor_lookup_failure_absorbed:
  "(coordinate_to_cell_key (cursor_coordinate s) s = Inl e \<longrightarrow>
      action_remove_row s = (Inr (), s) \<and> action_toggle_row s = (Inr (), s)) \<and>
   (coordinate_to_cell_key (cursor_coordinate s) s = Inr (rk, ck) \<and>
      get_cell rk (Named ''checkbox'') s = Inl e \<longrightarrow> action_toggle_row s = (Inr (), s))"
  by (auto simp: action_remove_row_def action_toggle_row_def
      dest!: coordinate_to_cell_key_error get_cell_error)

theorem cursor_lookup_failure_absorbed_witness:
  "coordinate_to_cell_key (cursor_coordinate (init 0)) (init 0) = Inl CellDoesNotExist \<and>
   action_remove_row (init 0) = (Inr (), init 0) \<and>
   action_toggle_row (init 0) = (Inr (), init 0) \<and>
   coordinate_to_cell_key (cursor_coordinate plain_grid) plain_grid = Inr (Named ''r1'', Named ''a'') \<and>
   get_cell (Named ''r1'') (Named ''checkbox'') plain_grid = Inl CellDoesNotExist \<and>
   action_toggle_row plain_grid = (Inr (), plain_grid)"
proof -
  have a: "coordinate_to_cell_key (cursor_coordinate (init 0)) (init 0) = Inl CellDoesNotExist"
    by (simp add: coordinate_to_cell_key_def is_valid_coordinate_def init_def row_count_def)
  have b: "coordinate_to_cell_key (cursor_coordinate plain_grid) plain_grid
             = Inr (Named ''r1'', Named ''a'')"
    by (simp add: plain_grid_eq coordinate_to_cell_key_def is_valid_coordinate_def row_count_def)
  have c: "get_cell (Named ''r1'') (Named ''checkbox'') plain_grid = Inl CellDoesNotExist"
    by (simp add: plain_grid_eq get_cell_def)
  show ?thesis
    using a b c
      cursor_lookup_failure_absorbed [of "init 0" CellDoesNotExist "Named ''r1''" "Named ''a''"]
      cursor_lookup_failure_absorbed [of plain_grid CellDoesNotExist "Named ''r1''" "Named ''a''"]
    by simp
qed

section \<open>Notifications and structural changes\<close>

lemma add_row_effects:
  "effects (snd (add_row cells height k label e sender s)) =
     effects s @ Posted (RowsAdded e sender) #
       (case fst (add_row cells height k label e sender s) of
          Inl _ \<Rightarrow> [] | Inr rk \<Rightarrow> [RowInserted rk])"
  by (auto simp: add_row_def new_checkbox_def post_message_def log_def base_add_row_def
      make_key_def set_cursor_coordinate_def split: option.splits prod.splits)

lemma add_row_failure:
  "fst (add_row cells height k label e sender s) = Inl x \<Longrightarrow>
     rows (snd (add_row cells height k label e sender s)) = rows s"
  by (auto simp: add_row_def new_checkbox_def post_message_def log_def base_add_row_def
      make_key_def split: option.splits prod.splits if_splits)

lemma remove_row_rows:
  "rows (snd (remove_row rk s)) = filter (\<lambda>r. row_key r \<noteq> rk) (rows s) \<and>
   heap (snd (remove_row rk s)) = heap s"
proof -
  have same: "rk \<notin> row_key ` set (rows s) \<Longrightarrow> filter (\<lambda>r. row_key r \<noteq> rk) (rows s) = rows s"
    by (auto simp: filter_id_conv)
  show ?thesis
    using same
    by (auto simp: remove_row_def base_remove_row_def post_message_def log_def
        column_width_refresh_def update_column_widths_def set_cursor_coordinate_def
        split: list.splits)
qed

lemma remove_row_effects:
  "effects (snd (remove_row rk s)) =
     effects s @ Posted (RowsRemoved True None) #
       (case fst (remove_row rk s) of
          Inl _ \<Rightarrow> []
        | Inr _ \<Rightarrow> RowDeleted rk # Refreshed #
            (case rows (snd (remove_row rk s)) of
               [] \<Rightarrow> [] | r # _ \<Rightarrow> [WidthsUpdated (refresh_cells r)]))"
  by (auto simp: remove_row_def post_message_def log_def base_remove_row_def
      column_width_refresh_def update_column_widths_def row_count_def
      set_cursor_coordinate_def split: list.splits)

lemma add_row_length:
  "length (rows (snd (add_row cells height k label e sender s))) =
     (case fst (add_row cells height k label e sender s) of
        Inl _ \<Rightarrow> length (rows s) | Inr _ \<Rightarrow> Suc (length (rows s)))"
  by (auto simp: add_row_def new_checkbox_def post_message_def log_def base_add_row_def
      make_key_def set_cursor_coordinate_def split: option.splits prod.splits)

lemma remove_row_failure:
  "fst (remove_row rk s) = Inl e \<Longrightarrow> rows (snd (remove_row rk s)) = rows s"
  by (auto simp: remove_row_def base_remove_row_def post_message_def log_def split: if_splits)

lemma remove_row_first_effects:
  "take (Suc (Suc (length (effects s)))) (effects (snd (remove_row rk s))) =
     effects s @ Posted (RowsRemoved True None) #
       (case fst (remove_row rk s) of Inl _ \<Rightarrow> [] | Inr _ \<Rightarrow> [RowDeleted rk])"
  by (cases "fst (remove_row rk s)") (simp_all add: remove_row_effects)

text \<open>
  C8: in every call of \<open>add_row\<close> and of \<open>remove_row\<close> the first thing done is to
  post the message (\<open>RowsAdded\<close>, \<open>RowsRemoved\<close>); the change of the row set by the
  base class comes after it. When the base class raises, the message has been posted and
  the rows are as they were.
\<close>

theorem notification_before_mutation:
  "effects (snd (add_row cells height k label e sender s)) =
     effects s @ Posted (RowsAdded e sender) #
       (case fst (add_row cells height k label e sender s) of
          Inl _ \<Rightarrow> [] | Inr key \<Rightarrow> [RowInserted key]) \<and>
   (case fst (add_row cells height k label e sender s) of
      Inl _ \<Rightarrow> rows (snd (add_row cells height k label e sender s)) = rows s
    | Inr _ \<Rightarrow> length (rows (snd (add_row cells height k label e sender s)))
                 = Suc (length (rows s))) \<and>
   take (Suc (Suc (length (effects s)))) (effects (snd (remove_row rk s))) =
     effects s @ Posted (RowsRemoved True None) #
       (case fst (remove_row rk s) of Inl _ \<Rightarrow> [] | Inr _ \<Rightarrow> [RowDeleted rk]) \<and>
   (case fst (remove_row rk s) of
      Inl _ \<Rightarrow> rows (snd (remove_row rk s)) = rows s
    | Inr _ \<Rightarrow> rows (snd (remove_row rk s)) = filter (\<lambda>r. row_key r \<noteq> rk) (rows s))"
  using add_row_length [of cells height k label e sender s]
    add_row_failure [of cells height k label e sender s]
    remove_row_failure [of rk s] remove_row_rows [of rk s] remove_row_first_effects [of s rk]
  by (simp add: add_row_effects split: sum.splits)

theorem notification_before_mutation_witness:
  "effects (snd (add_row [''a'', ''b''] (Some 1) (Some ''r1'') None True None selection_grid)) =
     [Posted (RowsAdded True None), RowInserted (Named ''r1'')] \<and>
   effects (snd (add_row [''a'', ''b''] (Some 1) (Some ''r1'') None True None two_rows)) =
     effects two_rows @ [Posted (RowsAdded True None)] \<and>
   rows (snd (add_row [''a'', ''b''] (Some 1) (Some ''r1'') None True None two_rows)) =
     rows two_rows \<and>
   take 6 (effects (snd (remove_row (Named ''r1'') two_rows))) =
     effects two_rows @ [Posted (RowsRemoved True None), RowDeleted (Named ''r1'')]"
proof -
  have f1: "fst (add_row [''a'', ''b''] (Some 1) (Some ''r1'') None True None selection_grid)
              = Inr (Named ''r1'')"
    by (simp add: selection_grid_eq eval_defs)
  have f2: "fst (add_row [''a'', ''b''] (Some 1) (Some ''r1'') None True None two_rows)
              = Inl DuplicateKey"
    by (simp add: two_rows_eq eval_defs)
  have f3: "fst (remove_row (Named ''r1'') two_rows) = Inr ()"
    by (simp add: two_rows_eq remove_row_def base_remove_row_def post_message_def log_def)
  have e: "effects selection_grid = []" "length (effects two_rows) = 4"
    by (simp_all add: selection_grid_eq two_rows_eq)
  show ?thesis
    using f1 f2 f3 e
      notification_before_mutation [of "[''a'', ''b'']" "Some 1" "Some ''r1''" None True None
        selection_grid "Named ''r1''"]
      notification_before_mutation [of "[''a'', ''b'']" "Some 1" "Some ''r1''" None True None
        two_rows "Named ''r1''"]
    by simp
qed

section \<open>The prepended checkbox\<close>

text \<open>
  C1, as stated: the \<open>Checkbox\<close> that \<open>add_row\<close> puts in front of the cells of a
  row is unchecked. It is not: in a table with row selection, the first cell of the row
  added is a \<open>Checkbox\<close> whose flag is \<open>True\<close>.
\<close>

theorem add_row_checkbox_unchecked_counterexample:
  "row_disable selection_grid \<and>
   fst (add_row [''a'', ''b''] (Some 1) (Some ''r1'') None True None selection_grid)
     = Inr (Named ''r1'') \<and>
   snd (hd (row_data (last (rows (snd
     (add_row [''a'', ''b''] (Some 1) (Some ''r1'') None True None selection_grid))))))
     = Some (CheckboxRef 0) \<and>
   heap (snd (add_row [''a'', ''b''] (Some 1) (Some ''r1'') None True None selection_grid)) ! 0
     \<noteq> False"
  by (simp add: selection_grid_eq eval_defs)

text \<open>
  C1, amended: in a table with row selection, every \<open>add_row\<close> that returns has
  appended one row whose cells are a \<open>Checkbox\<close> followed by the caller's cells (and
  padding up to the number of columns); the \<open>Checkbox\<close> is a new object, not allocated
  before the call, and its flag is \<open>True\<close>: checked.
\<close>

theorem add_row_prepends_checked_checkbox:
  assumes "row_disable s"
      and "fst (add_row cells height k label e sender s) = Inr rk"
  shows "butlast (rows (snd (add_row cells height k label e sender s))) = rows s \<and>
         rows (snd (add_row cells height k label e sender s)) \<noteq> [] \<and>
         row_key (last (rows (snd (add_row cells height k label e sender s)))) = rk \<and>
         map snd (row_data (last (rows (snd (add_row cells height k label e sender s))))) =
           Some (CheckboxRef (length (heap s))) #
             map (\<lambda>c. Some (Plain c)) cells @
             replicate (length (columns s) - Suc (length cells)) None \<and>
         heap (snd (add_row cells height k label e sender s)) = heap s @ [True] \<and>
         heap (snd (add_row cells height k label e sender s)) ! length (heap s) = True"
  using assms
  by (auto simp: add_row_def new_checkbox_def post_message_def log_def base_add_row_def
      make_key_def set_cursor_coordinate_def zip_longest_def comp_def
      split: option.splits prod.splits if_splits)

theorem add_row_prepends_checked_checkbox_witness:
  "row_disable two_rows \<and>
   fst (add_row [''e''] (Some 1) (Some ''r3'') None True None two_rows) = Inr (Named ''r3'') \<and>
   map snd (row_data (last (rows (snd
     (add_row [''e''] (Some 1) (Some ''r3'') None True None two_rows))))) =
     [Some (CheckboxRef 2), Some (Plain ''e''), None] \<and>
   heap (snd (add_row [''e''] (Some 1) (Some ''r3'') None True None two_rows)) =
     [True, True, True]"
proof -
  have h1: "row_disable two_rows" by (simp add: two_rows_eq)
  have h2: "fst (add_row [''e''] (Some 1) (Some ''r3'') None True None two_rows)
              = Inr (Named ''r3'')"
    by (simp add: two_rows_eq eval_defs)
  have v: "heap two_rows = [True, True]" "length (columns two_rows) = 3"
    by (simp_all add: two_rows_eq)
  show ?thesis
    using h1 h2 v add_row_prepends_checked_checkbox [OF h1 h2] by simp
qed

section \<open>Column widths\<close>

lemma width_requests_append [simp]:
  "width_requests (xs @ ys) = width_requests xs @ width_requests ys"
  by (induction xs rule: width_requests.induct) auto

lemma refresh_cells_first_row: "ck \<in> refresh_cells r \<Longrightarrow> fst ck = row_key r"
  by (auto simp: refresh_cells_def)

lemma column_width_refresh_effects:
  "effects (column_width_refresh s) =
     effects s @ (case rows s of [] \<Rightarrow> [] | r # _ \<Rightarrow> [WidthsUpdated (refresh_cells r)])"
  by (auto simp: column_width_refresh_def update_column_widths_def log_def row_count_def
      split: list.splits)

lemma column_width_refresh_rows [simp]: "rows (column_width_refresh s) = rows s"
  by (auto simp: column_width_refresh_def update_column_widths_def log_def row_count_def
      split: list.splits)

lemma remove_row_widths:
  "width_requests (new_effects s (snd (remove_row rk s))) =
     (case fst (remove_row rk s) of
        Inl _ \<Rightarrow> []
      | Inr _ \<Rightarrow> (case rows (snd (remove_row rk s)) of [] \<Rightarrow> [] | r # _ \<Rightarrow> [refresh_cells r]))"
  by (simp add: new_effects_def remove_row_effects split: sum.splits list.splits)

lemma clear_effects:
  "effects (clear cols s) =
     effects s @ [Posted (RowsRemoved False None), RowsCleared cols, Refreshed] \<and>
   rows (clear cols s) = []"
  by (simp add: clear_def post_message_def log_def base_clear_def column_width_refresh_def
      set_cursor_coordinate_def row_count_def)

lemma add_rows_no_widths:
  "\<exists>es. effects (snd (add_rows rws s)) = effects s @ es \<and> width_requests es = []"
proof (induction rws arbitrary: s)
  case Nil
  then show ?case by simp
next
  case (Cons r rs)
  obtain res s1 where step: "add_row r (Some 1) None None False None s = (res, s1)"
    by (cases "add_row r (Some 1) None None False None s")
  from add_row_effects [of r "Some 1" None None False None s] step
  obtain es1 where es1: "effects s1 = effects s @ es1" "width_requests es1 = []"
    by (cases res) auto
  show ?case
  proof (cases res)
    case (Inl e)
    then show ?thesis using step es1 by simp
  next
    case (Inr rk)
    from Cons.IH [of s1] obtain es2 where
      "effects (snd (add_rows rs s1)) = effects s1 @ es2" "width_requests es2 = []" by auto
    then show ?thesis using step es1 Inr by simp
  qed
qed

lemma replace_all_rows_widths:
  assumes "fst (replace_all_rows rws s) = Inr u"
  shows "width_requests (new_effects s (snd (replace_all_rows rws s))) =
           (case rows (snd (replace_all_rows rws s)) of [] \<Rightarrow> [] | r # _ \<Rightarrow> [refresh_cells r])"
proof -
  obtain res s2 where ar: "add_rows rws (clear False s) = (res, s2)"
    by (cases "add_rows rws (clear False s)")
  with assms have s': "snd (replace_all_rows rws s) = column_width_refresh s2"
    by (auto simp: replace_all_rows_def split: sum.splits)
  from add_rows_no_widths [of rws "clear False s"] ar obtain es2 where
    es2: "effects s2 = effects (clear False s) @ es2" "width_requests es2 = []" by auto
  show ?thesis
    using es2
    by (simp add: s' column_width_refresh_effects new_effects_def clear_effects
        split: list.splits)
qed

text \<open>
  C2, as stated: after \<open>remove_row\<close>, \<open>clear\<close> and \<open>replace_all_rows\<close> the
  refresh of the column widths re-measures the cells of the whole current row set. It
  does not: after the removal of the second of three rows, the cells handed over for
  re-measuring are those of the first row only; no cell of the third row is among them.
\<close>

theorem width_refresh_full_scan_counterexample:
  "map row_key (rows (snd (remove_row (Named ''r2'') three_rows)))
     = [Named ''r1'', Named ''r3''] \<and>
   width_requests (new_effects three_rows (snd (remove_row (Named ''r2'') three_rows))) =
     [{(Named ''r1'', Named ''checkbox''), (Named ''r1'', Named ''a''),
       (Named ''r1'', Named ''b'')}] \<and>
   (Named ''r3'', Named ''a'') \<notin>
     {(Named ''r1'', Named ''checkbox''), (Named ''r1'', Named ''a''),
      (Named ''r1'', Named ''b'')}"
  by (simp add: three_rows_eq remove_row_def base_remove_row_def column_width_refresh_def
      update_column_widths_def refresh_cells_def new_effects_def eval_defs)

text \<open>
  C2, amended: \<open>remove_row\<close> and \<open>replace_all_rows\<close>, when they return, and
  \<open>clear\<close> end with one refresh of the column widths on the new row set. On a table
  left with rows the refresh hands over for re-measuring the cells of the first row, one
  for each column key of that row, and no cell of another row; on a table left empty it
  hands over nothing.
\<close>

theorem width_refresh_first_row_only:
  "(fst (remove_row rk s) = Inr u \<longrightarrow>
      width_requests (new_effects s (snd (remove_row rk s))) =
        (case rows (snd (remove_row rk s)) of [] \<Rightarrow> [] | r # _ \<Rightarrow> [refresh_cells r])) \<and>
   rows (clear cols s) = [] \<and>
   width_requests (new_effects s (clear cols s)) = [] \<and>
   (fst (replace_all_rows rws s) = Inr u \<longrightarrow>
      width_requests (new_effects s (snd (replace_all_rows rws s))) =
        (case rows (snd (replace_all_rows rws s)) of [] \<Rightarrow> [] | r # _ \<Rightarrow> [refresh_cells r])) \<and>
   refresh_cells r0 = {(row_key r0, c) | c. c \<in> fst ` set (row_data r0)}"
  using remove_row_widths [of s rk] replace_all_rows_widths [of rws s u]
  by (auto simp: clear_effects new_effects_def refresh_cells_def)

theorem width_refresh_first_row_only_witness:
  "fst (remove_row (Named ''r1'') three_rows) = Inr () \<and>
   map row_key (rows (snd (remove_row (Named ''r1'') three_rows)))
     = [Named ''r2'', Named ''r3''] \<and>
   width_requests (new_effects three_rows (snd (remove_row (Named ''r1'') three_rows))) =
     [{(Named ''r2'', Named ''checkbox''), (Named ''r2'', Named ''a''),
       (Named ''r2'', Named ''b'')}] \<and>
   fst (replace_all_rows [[''x'', ''y'']] three_rows) = Inr () \<and>
   width_requests (new_effects three_rows (snd (replace_all_rows [[''x'', ''y'']] three_rows))) =
     [{(Auto 0, Named ''checkbox''), (Auto 0, Named ''a''), (Auto 0, Named ''b'')}]"
proof -
  have f: "fst (remove_row (Named ''r1'') three_rows) = Inr ()"
    by (simp add: three_rows_eq remove_row_def base_remove_row_def post_message_def log_def)
  have r: "rows (snd (remove_row (Named ''r1'') three_rows)) = tl (rows three_rows)"
    by (simp add: remove_row_rows) (simp add: three_rows_eq)
  have c: "clear False three_rows = three_rows\<lparr>rows := [],
      effects := effects three_rows @ [Posted (RowsRemoved False None), RowsCleared False, Refreshed]\<rparr>"
    by (simp add: three_rows_eq clear_def base_clear_def post_message_def log_def
        column_width_refresh_def set_cursor_coordinate_def clamp_cursor_coordinate_def
        clamp_def row_count_def)
  have g: "fst (replace_all_rows [[''x'', ''y'']] three_rows) = Inr ()"
    by (simp add: replace_all_rows_def c) (simp add: three_rows_eq eval_defs)
  have h: "rows (snd (replace_all_rows [[''x'', ''y'']] three_rows)) =
     [\<lparr>row_key = Auto 0, row_height = Some 1, row_label = None,
       row_data = [(Named ''checkbox'', Some (CheckboxRef 3)),
                   (Named ''a'', Some (Plain ''x'')), (Named ''b'', Some (Plain ''y''))]\<rparr>]"
    by (simp add: replace_all_rows_def c) (simp add: three_rows_eq eval_defs)
  note t = width_refresh_first_row_only
      [of "Named ''r1''" three_rows "()" False "[[''x'', ''y'']]" undefined]
  from t f have w1:
    "width_requests (new_effects three_rows (snd (remove_row (Named ''r1'') three_rows))) =
       (case rows (snd (remove_row (Named ''r1'') three_rows)) of
          [] \<Rightarrow> [] | r # _ \<Rightarrow> [refresh_cells r])"
    by blast
  from t g have w2:
    "width_requests (new_effects three_rows (snd (replace_all_rows [[''x'', ''y'']] three_rows))) =
       (case rows (snd (replace_all_rows [[''x'', ''y'']] three_rows)) of
          [] \<Rightarrow> [] | r # _ \<Rightarrow> [refresh_cells r])"
    by blast
  have k: "map row_key (rows (snd (remove_row (Named ''r1'') three_rows)))
             = [Named ''r2'', Named ''r3'']"
    unfolding r by (simp add: three_rows_eq)
  have w1': "width_requests (new_effects three_rows (snd (remove_row (Named ''r1'') three_rows))) =
     [{(Named ''r2'', Named ''checkbox''), (Named ''r2'', Named ''a''),
       (Named ''r2'', Named ''b'')}]"
    unfolding w1 r by (simp add: three_rows_eq refresh_cells_def)
  have w2': "width_requests (new_effects three_rows
       (snd (replace_all_rows [[''x'', ''y'']] three_rows))) =
     [{(Auto 0, Named ''checkbox''), (Auto 0, Named ''a''), (Auto 0, Named ''b'')}]"
    unfolding w2 h by (simp add: refresh_cells_def)
  show ?thesis
    using f g k w1' w2' by blast
qed

section \<open>The checkbox column\<close>

lemma base_add_column_columns:
  "columns (snd (base_add_column l w k d s)) =
     columns s @ (case fst (base_add_column l w k d s) of
                    Inl _ \<Rightarrow> []
                  | Inr ck \<Rightarrow> [\<lparr>col_key = ck, col_label = l, col_width = w\<rparr>])"
  by (auto simp: base_add_column_def make_key_def split: option.splits)

lemma base_add_column_fresh:
  "fst (base_add_column l w k d s) = Inr ck \<Longrightarrow> ck \<notin> col_key ` set (columns s)"
  by (auto simp: base_add_column_def make_key_def split: option.splits if_splits)

lemma add_column_first:
  assumes "row_disable s" and "columns s = []"
  shows "columns (snd (add_column l w k d s)) =
           checkbox_column # (case fst (add_column l w k d s) of
                                Inl _ \<Rightarrow> []
                              | Inr ck \<Rightarrow> [\<lparr>col_key = ck, col_label = l, col_width = w\<rparr>])"
  using assms
  by (auto simp: add_column_def base_add_column_def make_key_def checkbox_column_def
      split: option.splits)

lemma add_column_first_key:
  assumes "row_disable s" and "columns s = []" and "fst (add_column l w k d s) = Inr ck"
  shows "ck \<noteq> Named ''checkbox''"
  using assms
  by (auto simp: add_column_def base_add_column_def make_key_def
      split: option.splits if_splits)

lemma add_column_later:
  assumes "columns s \<noteq> []"
  shows "columns (snd (add_column l w k d s)) =
           columns s @ (case fst (add_column l w k d s) of
                          Inl _ \<Rightarrow> []
                        | Inr ck \<Rightarrow> [\<lparr>col_key = ck, col_label = l, col_width = w\<rparr>])"
  using assms by (simp add: add_column_def base_add_column_columns)

lemma add_column_later_fresh:
  assumes "columns s \<noteq> []" and "fst (add_column l w k d s) = Inr ck"
  shows "ck \<notin> col_key ` set (columns s)"
  using assms by (simp add: add_column_def base_add_column_fresh)

lemma one_checkbox_step:
  assumes "one_checkbox (columns s)"
  shows "one_checkbox (columns (snd (add_column l w k d s)))"
proof -
  from assms have ne: "columns s \<noteq> []" by (simp add: one_checkbox_def)
  have mem: "checkbox_column \<in> set (columns s)"
    using assms by (cases "columns s") (auto simp: one_checkbox_def)
  show ?thesis
  proof (cases "fst (add_column l w k d s)")
    case (Inl e)
    then show ?thesis using assms add_column_later [OF ne, of l w k d] by simp
  next
    case (Inr ck)
    have "ck \<noteq> Named ''checkbox''"
      using add_column_later_fresh [OF ne Inr] mem by (force simp: checkbox_column_def)
    then show ?thesis
      using assms Inr add_column_later [OF ne, of l w k d] by (simp add: one_checkbox_def)
  qed
qed

lemma one_checkbox_run:
  "one_checkbox (columns s) \<Longrightarrow> one_checkbox (columns (add_columns calls s))"
  by (induction calls arbitrary: s) (auto simp: one_checkbox_step)

lemma one_checkbox_first:
  assumes "row_disable s" and "columns s = []"
  shows "one_checkbox (columns (snd (add_column l w k d s)))"
proof (cases "fst (add_column l w k d s)")
  case (Inl e)
  then show ?thesis
    using add_column_first [OF assms, of l w k d]
    by (simp add: one_checkbox_def checkbox_column_def)
next
  case (Inr ck)
  then show ?thesis
    using add_column_first_key [OF assms Inr] add_column_first [OF assms, of l w k d]
    by (simp add: one_checkbox_def checkbox_column_def)
qed

text \<open>
  C6: in a table with row selection and no columns, \<open>add_column\<close> inserts the
  checkbox column (key \<open>checkbox\<close>, empty label, width 1) at position 0, before the
  column asked for. It is inserted once: an \<open>add_column\<close> on a table that has columns
  appends the column asked for and nothing else, and after any run of further calls the
  checkbox column is still the first column and the only one with its key.
\<close>

theorem add_column_checkbox_once:
  assumes "row_disable s" and "columns s = []"
  shows "columns (snd (add_column l w k d s)) =
           checkbox_column # (case fst (add_column l w k d s) of
                                Inl _ \<Rightarrow> []
                              | Inr ck \<Rightarrow> [\<lparr>col_key = ck, col_label = l, col_width = w\<rparr>]) \<and>
         (columns t \<noteq> [] \<longrightarrow>
            columns (snd (add_column l' w' k' d' t)) =
              columns t @ (case fst (add_column l' w' k' d' t) of
                             Inl _ \<Rightarrow> []
                           | Inr ck \<Rightarrow> [\<lparr>col_key = ck, col_label = l', col_width = w'\<rparr>])) \<and>
         one_checkbox (columns (add_columns calls (snd (add_column l w k d s))))"
  using add_column_first [OF assms, of l w k d] add_column_later [of t l' w' k' d']
    one_checkbox_run [OF one_checkbox_first [OF assms, of l w k d], of calls]
  by blast

theorem add_column_checkbox_once_witness:
  "row_disable ((init 0)\<lparr>row_disable := True\<rparr>) \<and> columns ((init 0)\<lparr>row_disable := True\<rparr>) = [] \<and>
   columns (snd (add_column ''A'' None (Some ''a'') None ((init 0)\<lparr>row_disable := True\<rparr>))) =
     [checkbox_column, \<lparr>col_key = Named ''a'', col_label = ''A'', col_width = None\<rparr>] \<and>
   columns selection_grid =
     [checkbox_column, \<lparr>col_key = Named ''a'', col_label = ''A'', col_width = None\<rparr>,
      \<lparr>col_key = Named ''b'', col_label = ''B'', col_width = None\<rparr>] \<and>
   one_checkbox (columns selection_grid)"
proof -
  let ?s = "(init 0)\<lparr>row_disable := True\<rparr>"
  have h: "row_disable ?s" "columns ?s = []" by (simp_all add: init_def)
  have f: "fst (add_column ''A'' None (Some ''a'') None ?s) = Inr (Named ''a'')"
    by (simp add: eval_defs)
  have g: "selection_grid =
      add_columns [(''B'', None, Some ''b'', None)] (snd (add_column ''A'' None (Some ''a'') None ?s))"
    by (simp add: selection_grid_def)
  note t = add_column_checkbox_once [OF h, of "''A''" None "Some ''a''" None ?s "''A''" None None None
      "[(''B'', None, Some ''b'', None)]"]
  from t f have c1: "columns (snd (add_column ''A'' None (Some ''a'') None ?s)) =
     [checkbox_column, \<lparr>col_key = Named ''a'', col_label = ''A'', col_width = None\<rparr>]"
    by simp
  from t have c2: "one_checkbox (columns selection_grid)"
    unfolding g by blast
  have c3: "columns selection_grid =
     [checkbox_column, \<lparr>col_key = Named ''a'', col_label = ''A'', col_width = None\<rparr>,
      \<lparr>col_key = Named ''b'', col_label = ''B'', col_width = None\<rparr>]"
    by (simp add: selection_grid_eq checkbox_column_def)
  show ?thesis using h c1 c2 c3 by blast
qed

section \<open>Toggling a row\<close>

lemma cell_refs_append [simp]: "cell_refs (xs @ ys) = cell_refs xs @ cell_refs ys"
  by (induction xs rule: cell_refs.induct) auto

lemma cell_refs_map_of:
  "map_of cs k = Some (Some (CheckboxRef a)) \<Longrightarrow> a \<in> set (cell_refs cs)"
  by (induction cs rule: cell_refs.induct) (auto split: if_splits)

lemma cell_refs_zip_plain:
  "cell_refs (zip ks (map (\<lambda>c. Some (Plain c)) cs @ replicate n None)) = []"
proof (induction ks arbitrary: cs n)
  case Nil
  then show ?case by simp
next
  case (Cons k ks)
  show ?case
  proof (cases cs)
    case Nil
    then show ?thesis using Cons.IH [of "[]"] by (cases n) auto
  next
    case (Cons c cs')
    then show ?thesis using Cons.IH [of cs' n] by simp
  qed
qed

lemma cell_refs_zip_longest:
  "cell_refs (zip_longest ks (CheckboxRef a # map Plain cs)) = (if ks = [] then [] else [a])"
  "cell_refs (zip_longest ks (map Plain cs)) = []"
  using cell_refs_zip_plain [of "tl ks" cs "length ks - Suc (length cs)"]
        cell_refs_zip_plain [of ks cs "length ks - length cs"]
  by (cases ks; simp add: zip_longest_def comp_def)+

lemma cell_refs_default [simp]: "cell_refs [(ck, map_option Plain d)] = []"
  by (cases d) auto

lemma find_member: "find P xs = Some x \<Longrightarrow> x \<in> set xs \<and> P x"
  by (induction xs) (auto split: if_splits)

lemma shared_ref_same_row:
  assumes "distinct (concat (map f xs))" "x \<in> set xs" "y \<in> set xs"
      "a \<in> set (f x)" "a \<in> set (f y)"
  shows "x = y"
  using assms by (induction xs) auto

lemma distinct_concat_filter:
  "distinct (concat (map f xs)) \<Longrightarrow> distinct (concat (map f (filter P xs)))"
  by (induction xs) auto

subsection \<open>No \<open>Checkbox\<close> is shared between rows\<close>

lemma unshared_init: "unshared (init fc)"
  by (simp add: unshared_def checkbox_refs_def init_def)

lemma base_add_row_refs:
  "checkbox_refs (snd (base_add_row cs h k l s)) =
     checkbox_refs s @ (case fst (base_add_row cs h k l s) of
        Inl _ \<Rightarrow> []
      | Inr _ \<Rightarrow> cell_refs (zip_longest (map col_key (columns s)) cs)) \<and>
   heap (snd (base_add_row cs h k l s)) = heap s"
  by (auto simp: checkbox_refs_def base_add_row_def make_key_def log_def
      set_cursor_coordinate_def split: option.splits)

lemma add_row_refs:
  "heap (snd (add_row cells height k label e sender s)) =
     (if row_disable s then heap s @ [True] else heap s) \<and>
   (\<exists>new. checkbox_refs (snd (add_row cells height k label e sender s)) = checkbox_refs s @ new \<and>
      set new \<subseteq> (if row_disable s then {length (heap s)} else {}) \<and> distinct new)"
proof (cases "row_disable s")
  case True
  let ?s1 = "post_message (RowsAdded e sender) (s\<lparr>heap := heap s @ [True]\<rparr>)"
  let ?cs = "CheckboxRef (length (heap s)) # map Plain cells"
  have eq: "add_row cells height k label e sender s = base_add_row ?cs height k label ?s1"
    using True by (simp add: add_row_def new_checkbox_def)
  have pre: "checkbox_refs ?s1 = checkbox_refs s" "heap ?s1 = heap s @ [True]"
    by (simp_all add: checkbox_refs_def post_message_def log_def)
  show ?thesis
    using True base_add_row_refs [of ?cs height k label ?s1] pre
    by (simp only: eq cell_refs_zip_longest) (auto split: sum.splits)
next
  case False
  let ?s1 = "post_message (RowsAdded e sender) s"
  have eq: "add_row cells height k label e sender s =
              base_add_row (map Plain cells) height k label ?s1"
    using False by (simp add: add_row_def)
  have pre: "checkbox_refs ?s1 = checkbox_refs s" "heap ?s1 = heap s"
    by (simp_all add: checkbox_refs_def post_message_def log_def)
  show ?thesis
    using False base_add_row_refs [of "map Plain cells" height k label ?s1] pre
    by (simp only: eq cell_refs_zip_longest) (auto split: sum.splits)
qed

lemma unshared_add_row:
  assumes "unshared s"
  shows "unshared (snd (add_row cells height k label e sender s))"
proof -
  from add_row_refs [of cells height k label e sender s] obtain new where
    h: "heap (snd (add_row cells height k label e sender s)) =
          (if row_disable s then heap s @ [True] else heap s)"
    and n: "checkbox_refs (snd (add_row cells height k label e sender s)) = checkbox_refs s @ new"
       "set new \<subseteq> (if row_disable s then {length (heap s)} else {})" "distinct new"
    by blast
  show ?thesis
    using assms n unfolding unshared_def h
    by (auto simp: less_Suc_eq split: if_splits)
qed

lemma base_add_column_refs:
  "checkbox_refs (snd (base_add_column l w k (map_option Plain d) s)) = checkbox_refs s \<and>
   heap (snd (base_add_column l w k (map_option Plain d) s)) = heap s"
  by (auto simp: checkbox_refs_def base_add_column_def make_key_def comp_def
      split: option.splits)

lemma add_column_refs:
  "checkbox_refs (snd (add_column l w k d s)) = checkbox_refs s \<and>
   heap (snd (add_column l w k d s)) = heap s"
proof -
  obtain res s1 where b: "base_add_column [] (Some 1) (Some ''checkbox'') None s = (res, s1)"
    by (cases "base_add_column [] (Some 1) (Some ''checkbox'') None s")
  have s1: "checkbox_refs s1 = checkbox_refs s \<and> heap s1 = heap s"
    using base_add_column_refs [of "[]" "Some 1" "Some ''checkbox''" None s] b by simp
  show ?thesis
    using s1 b base_add_column_refs [of l w k d s1] base_add_column_refs [of l w k d s]
    by (auto simp: add_column_def split: sum.splits)
qed

lemma unshared_add_column: "unshared s \<Longrightarrow> unshared (snd (add_column l w k d s))"
  by (simp add: unshared_def add_column_refs)

lemma unshared_remove_row:
  assumes "unshared s"
  shows "unshared (snd (remove_row rk s))"
  using assms
  by (auto simp: unshared_def checkbox_refs_def remove_row_rows distinct_concat_filter)

lemma unshared_clear: "unshared (clear cols s)"
  by (simp add: unshared_def checkbox_refs_def clear_effects)

lemma toggle_row_success:
  assumes "coordinate_to_cell_key (cursor_coordinate s) s = Inr (rk, ck)"
      and "get_cell rk (Named ''checkbox'') s = Inr (Some (CheckboxRef a))"
  shows "action_toggle_row s =
           (Inr (), s\<lparr>heap := (heap s)[a := \<not> heap s ! a],
                      update_count := Suc (update_count s),
                      effects := effects s @ [Refreshed]\<rparr>)"
  using assms by (simp add: action_toggle_row_def toggle_def refresh_def log_def)

lemma unshared_toggle_row: "unshared s \<Longrightarrow> unshared (snd (action_toggle_row s))"
  by (auto simp: unshared_def checkbox_refs_def action_toggle_row_def toggle_def refresh_def
      log_def split: sum.splits option.splits cell.splits error.splits)

text \<open>
  C5: when the cursor is on a cell and the row under it has a \<open>Checkbox\<close> in the
  checkbox column, \<open>action_toggle_row\<close> returns normally, negates the flag of that one
  \<open>Checkbox\<close> and of no other object, and leaves the cells of all rows and the flags
  of the \<open>Checkbox\<close> objects of every other row as they were. On an empty table it
  returns normally and changes nothing.
\<close>

theorem toggle_row_flips_one:
  "(unshared s \<and> coordinate_to_cell_key (cursor_coordinate s) s = Inr (rk, ck) \<and>
      get_cell rk (Named ''checkbox'') s = Inr (Some (CheckboxRef a)) \<longrightarrow>
      fst (action_toggle_row s) = Inr () \<and>
      rows (snd (action_toggle_row s)) = rows s \<and>
      length (heap (snd (action_toggle_row s))) = length (heap s) \<and>
      a < length (heap s) \<and>
      (\<forall>b < length (heap s). (heap (snd (action_toggle_row s)) ! b \<noteq> heap s ! b) = (b = a)) \<and>
      (\<forall>r \<in> set (rows s). row_key r \<noteq> rk \<longrightarrow>
         (\<forall>b \<in> set (cell_refs (row_data r)).
            heap (snd (action_toggle_row s)) ! b = heap s ! b))) \<and>
   (row_count s = 0 \<longrightarrow> action_toggle_row s = (Inr (), s))"
proof (rule conjI; rule impI)
  assume "row_count s = 0"
  then show "action_toggle_row s = (Inr (), s)"
    by (simp add: action_toggle_row_def empty_grid_lookup)
next
  assume h: "unshared s \<and> coordinate_to_cell_key (cursor_coordinate s) s = Inr (rk, ck) \<and>
      get_cell rk (Named ''checkbox'') s = Inr (Some (CheckboxRef a))"
  then have wf: "unshared s"
    and lk: "coordinate_to_cell_key (cursor_coordinate s) s = Inr (rk, ck)"
    and gc: "get_cell rk (Named ''checkbox'') s = Inr (Some (CheckboxRef a))"
    by simp_all
  from gc obtain r0 where r0: "r0 \<in> set (rows s)" "row_key r0 = rk"
      "map_of (row_data r0) (Named ''checkbox'') = Some (Some (CheckboxRef a))"
    by (auto simp: get_cell_def split: option.splits dest: find_member)
  then have a_in: "a \<in> set (cell_refs (row_data r0))" by (simp add: cell_refs_map_of)
  with r0 wf have a_lt: "a < length (heap s)"
    by (auto simp: unshared_def checkbox_refs_def)
  have other: "b \<noteq> a"
    if "r \<in> set (rows s)" "row_key r \<noteq> rk" "b \<in> set (cell_refs (row_data r))" for r b
  proof
    assume "b = a"
    with that a_in r0 wf have "r = r0"
      using shared_ref_same_row [of "\<lambda>r. cell_refs (row_data r)" "rows s" r r0 a]
      by (simp add: unshared_def checkbox_refs_def)
    with that r0 show False by simp
  qed
  show "fst (action_toggle_row s) = Inr () \<and>
      rows (snd (action_toggle_row s)) = rows s \<and>
      length (heap (snd (action_toggle_row s))) = length (heap s) \<and>
      a < length (heap s) \<and>
      (\<forall>b < length (heap s). (heap (snd (action_toggle_row s)) ! b \<noteq> heap s ! b) = (b = a)) \<and>
      (\<forall>r \<in> set (rows s). row_key r \<noteq> rk \<longrightarrow>
         (\<forall>b \<in> set (cell_refs (row_data r)).
            heap (snd (action_toggle_row s)) ! b = heap s ! b))"
    using a_lt other by (auto simp: toggle_row_success [OF lk gc] nth_list_update)
qed

theorem toggle_row_flips_one_witness:
  "unshared two_rows \<and>
   coordinate_to_cell_key (cursor_coordinate two_rows) two_rows
     = Inr (Named ''r1'', Named ''checkbox'') \<and>
   get_cell (Named ''r1'') (Named ''checkbox'') two_rows = Inr (Some (CheckboxRef 0)) \<and>
   heap two_rows = [True, True] \<and>
   fst (action_toggle_row two_rows) = Inr () \<and>
   heap (snd (action_toggle_row two_rows)) ! 0 = False \<and>
   heap (snd (action_toggle_row two_rows)) ! 1 = True \<and>
   row_count selection_grid = 0 \<and>
   action_toggle_row selection_grid = (Inr (), selection_grid)"
proof -
  have h1: "unshared two_rows"
    by (simp add: two_rows_eq unshared_def checkbox_refs_def)
  have h2: "coordinate_to_cell_key (cursor_coordinate two_rows) two_rows
              = Inr (Named ''r1'', Named ''checkbox'')"
    by (simp add: two_rows_eq coordinate_to_cell_key_def is_valid_coordinate_def row_count_def)
  have h3: "get_cell (Named ''r1'') (Named ''checkbox'') two_rows = Inr (Some (CheckboxRef 0))"
    by (simp add: two_rows_eq get_cell_def)
  have h4: "row_count selection_grid = 0"
    by (simp add: selection_grid_eq row_count_def)
  have hp: "heap two_rows = [True, True]" by (simp add: two_rows_eq)
  note t = toggle_row_flips_one [of two_rows "Named ''r1''" "Named ''checkbox''" 0]
  from t h1 h2 h3 have
    f: "fst (action_toggle_row two_rows) = Inr ()" and
    q: "\<forall>b < length (heap two_rows).
          (heap (snd (action_toggle_row two_rows)) ! b \<noteq> heap two_rows ! b) = (b = 0)"
    by blast+
  from q hp have v0: "heap (snd (action_toggle_row two_rows)) ! 0 = False"
    by (auto dest!: spec [where x = 0])
  from q hp have v1: "heap (snd (action_toggle_row two_rows)) ! 1 = True"
    by (auto dest!: spec [where x = 1])
  from toggle_row_flips_one [of selection_grid undefined undefined undefined] h4
  have e: "action_toggle_row selection_grid = (Inr (), selection_grid)" by blast
  show ?thesis using h1 h2 h3 h4 hp f v0 v1 e by blast
qed

end
